theory Spec2Isabelle
  imports Complex_Main
begin

section \<open>CineBusca: the logic of \<^verbatim>\<open>src/App.jsx\<close>\<close>

text \<open>
  The application is one React module. Its logic is the route parser \<^verbatim>\<open>parseHash\<close>, the
  storage hook \<^verbatim>\<open>useLocalStorage\<close>, the search controller \<^verbatim>\<open>doSearch\<close> with the derived
  \<^verbatim>\<open>totalPages\<close>, the detail controller \<^verbatim>\<open>load\<close> and the favourites update
  \<^verbatim>\<open>toggleFavorite\<close>. Each is embedded below as a function on explicit state; what the
  browser supplies (the network, the storage, the JSON codec) is an argument. A controller
  operation is followed from its call to the end of its \<^verbatim>\<open>finally\<close> block; the search is
  also given in the two parts that its \<^verbatim>\<open>await\<close> separates. Rendering is left out.
\<close>

subsection \<open>JavaScript values\<close>

text \<open>
  A decoded API reply is a JSON value. An object is the list of its own properties. A number
  of a reply is an integer here, the API reporting counts. \<open>undefined\<close> is \<open>None\<close> of an
  option.
\<close>

datatype json =
    JNull
  | JBool bool
  | JNum int
  | JStr string
  | JArr "json list"
  | JObj "(string \<times> json) list"

text \<open>
  A JavaScript number as far as the controllers meet one: \<open>Num n\<close> is the double whose value
  is the integer \<open>n\<close>, \<open>NaN\<close> is \<open>NaN\<close>, and \<open>Unmodelled\<close> stands for a number that is not
  followed here (a fraction, an infinity, an integer that no double holds). Nothing is said
  of an \<open>Unmodelled\<close> number.
\<close>

datatype jsnum = NaN | Num int | Unmodelled

text \<open>An operation of the platform either returns or throws.\<close>

datatype 'a completion = Throws | Returns 'a

text \<open>Truthiness, as \<^verbatim>\<open>if (v)\<close>, \<^verbatim>\<open>v || d\<close> and \<^verbatim>\<open>v && w\<close> test it.\<close>

fun truthy :: "json \<Rightarrow> bool" where
  "truthy JNull = False"
| "truthy (JBool b) = b"
| "truthy (JNum n) = (n \<noteq> 0)"
| "truthy (JStr s) = (s \<noteq> [])"
| "truthy (JArr xs) = True"
| "truthy (JObj kvs) = True"

subsection \<open>Route parser\<close>

text \<open>
  \<^verbatim>\<open>window.location.hash\<close> is empty for an empty fragment and \<^verbatim>\<open>#\<close> followed by the
  fragment otherwise.
\<close>

definition location_hash :: "string \<Rightarrow> string" where
  "location_hash fragment = (if fragment = [] then [] else CHR ''#'' # fragment)"

text \<open>\<^verbatim>\<open>.replace(/^#\/?/, "")\<close>: a leading \<^verbatim>\<open>#\<close> goes, with the \<^verbatim>\<open>/\<close> right after it if any.\<close>

fun strip_hash :: "string \<Rightarrow> string" where
  "strip_hash [] = []"
| "strip_hash (c # cs) =
     (if c = CHR ''#'' then
        (case cs of [] \<Rightarrow> [] | d # ds \<Rightarrow> if d = CHR ''/'' then ds else cs)
      else c # cs)"

text \<open>\<^verbatim>\<open>s.split(sep)\<close> for a separator of one character: the empty string has one empty part.\<close>

fun split_on :: "char \<Rightarrow> string \<Rightarrow> string list" where
  "split_on sep [] = [[]]"
| "split_on sep (c # cs) =
     (if c = sep then [] # split_on sep cs
      else (case split_on sep cs of
              [] \<Rightarrow> [[c]]
            | p # ps \<Rightarrow> (c # p) # ps))"

text \<open>\<^verbatim>\<open>parts[i]\<close>: \<open>undefined\<close> past the end.\<close>

definition part :: "string list \<Rightarrow> nat \<Rightarrow> string option" where
  "part parts i = (if i < length parts then Some (parts ! i) else None)"

text \<open>\<^verbatim>\<open>parts[i]\<close> as a condition: false when \<open>undefined\<close> and when the empty string.\<close>

definition truthy_part :: "string option \<Rightarrow> bool" where
  "truthy_part p = (case p of None \<Rightarrow> False | Some s \<Rightarrow> s \<noteq> [])"

text \<open>The route object: \<^verbatim>\<open>{ name, params }\<close>.\<close>

record route =
  name :: string
  params :: "(string \<times> string) list"

definition parseHash :: "string \<Rightarrow> route" where
  "parseHash window_location_hash =
     (let hash = strip_hash window_location_hash in
      if hash = [] then \<lparr>name = ''search'', params = []\<rparr>
      else
        let parts = split_on CHR ''/'' hash in
        if part parts 0 = Some ''detalhes'' \<and> truthy_part (part parts 1)
        then \<lparr>name = ''details'', params = [(''id'', the (part parts 1))]\<rparr>
        else if part parts 0 = Some ''favoritos'' then \<lparr>name = ''favorites'', params = []\<rparr>
        else \<lparr>name = ''search'', params = []\<rparr>)"

subsection \<open>Reading a decoded reply\<close>

text \<open>
  \<^verbatim>\<open>data.k\<close> on a decoded reply. Reading a property of \<open>null\<close> throws a TypeError; a
  string, a number, a boolean and an array have none of the properties the controllers read
  (\<^verbatim>\<open>Response\<close>, \<^verbatim>\<open>Error\<close>, \<^verbatim>\<open>Search\<close>, \<^verbatim>\<open>totalResults\<close>), and neither has \<^verbatim>\<open>Object.prototype\<close>;
  an object gives its own property, each key being listed once.
\<close>

definition get :: "json \<Rightarrow> string \<Rightarrow> json option" where
  "get v k = (case v of JObj kvs \<Rightarrow> map_of kvs k | _ \<Rightarrow> None)"

definition read_property :: "json \<Rightarrow> string \<Rightarrow> json option completion" where
  "read_property v k = (if v = JNull then Throws else Returns (get v k))"

text \<open>\<^verbatim>\<open>v || d\<close>, where \<open>v\<close> may be \<open>undefined\<close>.\<close>

definition or_else :: "json option \<Rightarrow> json \<Rightarrow> json" where
  "or_else v d = (case v of None \<Rightarrow> d | Some x \<Rightarrow> if truthy x then x else d)"

subsection \<open>Double precision\<close>

text \<open>
  JavaScript numbers are IEEE 754 doubles: a quotient is the double nearest to the exact
  quotient, a tie going to the even significand, and so is the value of a decimal literal.
  \<open>nearest_double a b\<close> is that double for the exact \<open>a / b\<close> with \<open>a\<close>, \<open>b\<close> natural and
  \<open>b\<close> positive: \<open>a / b\<close> is scaled by a power of two to a significand of 53 bits, the
  significand is rounded to an integer, and the scaling is undone. (This is the rounding of
  the normal range; the quotients and literals below are far from the subnormal range, and
  an overflow is kept out by \<open>is_double\<close> and \<open>integer_value\<close>.)
\<close>

text \<open>The number of binary digits of \<open>n\<close>.\<close>

fun bits :: "nat \<Rightarrow> int" where
  "bits n = (if n = 0 then 0 else 1 + bits (n div 2))"

text \<open>The fraction \<open>a / b\<close> times \<open>2 ^ t\<close>, as numerator and denominator.\<close>

definition scaled :: "nat \<Rightarrow> nat \<Rightarrow> int \<Rightarrow> nat \<times> nat" where
  "scaled a b t = (if 0 \<le> t then (a * 2 ^ nat t, b) else (a, b * 2 ^ nat (- t)))"

text \<open>The binary exponent of \<open>a / b\<close>: the \<open>e\<close> with \<open>2 ^ e \<le> a / b < 2 ^ (e + 1)\<close>.\<close>

definition binexp :: "nat \<Rightarrow> nat \<Rightarrow> int" where
  "binexp a b =
     (let l = bits a - bits b in
      if snd (scaled a b (- l)) \<le> fst (scaled a b (- l)) then l else l - 1)"

text \<open>The integer nearest to \<open>x / y\<close>, a tie going to the even one.\<close>

definition rne :: "nat \<Rightarrow> nat \<Rightarrow> nat" where
  "rne x y =
     (let f = x div y; r = x mod y in
      if 2 * r < y \<or> (2 * r = y \<and> even f) then f else f + 1)"

definition nearest_double :: "nat \<Rightarrow> nat \<Rightarrow> rat" where
  "nearest_double a b =
     (if a = 0 then 0
      else
        let e = binexp a b;
            m = rne (fst (scaled a b (52 - e))) (snd (scaled a b (52 - e)))
        in if 52 \<le> e then of_nat (m * 2 ^ nat (e - 52))
           else of_nat m / of_nat (2 ^ nat (52 - e)))"

text \<open>\<^verbatim>\<open>n / b\<close> for a double of integer value \<open>n\<close> and a small positive integer \<open>b\<close>.\<close>

definition double_quotient :: "int \<Rightarrow> nat \<Rightarrow> rat" where
  "double_quotient n b =
     (if n < 0 then - nearest_double (nat (- n)) b else nearest_double (nat n) b)"

text \<open>The integers that a double holds, short of the overflow.\<close>

definition is_double :: "int \<Rightarrow> bool" where
  "is_double n = (\<bar>n\<bar> < 2 ^ 1023 \<and> double_quotient n 1 = of_int n)"

text \<open>
  The value of a run of decimal digits that writes \<open>n\<close>: the double nearest to \<open>n\<close>. The
  language fixes the value of a literal up to 20 significant digits and leaves a choice
  beyond; a longer run is not followed.
\<close>

definition integer_value :: "nat \<Rightarrow> jsnum" where
  "integer_value n = (if n < 10 ^ 20 then Num \<lfloor>nearest_double n 1\<rfloor> else Unmodelled)"

subsection \<open>Page count\<close>

text \<open>
  \<^verbatim>\<open>Math.ceil(total / 10)\<close>: the division is the double division, the ceiling is exact. Any
  arithmetic on \<open>NaN\<close> is \<open>NaN\<close>.
\<close>

definition totalPages :: "jsnum \<Rightarrow> jsnum" where
  "totalPages tot =
     (case tot of
        NaN \<Rightarrow> NaN
      | Num n \<Rightarrow> if is_double n then Num \<lceil>double_quotient n 10\<rceil> else Unmodelled
      | Unmodelled \<Rightarrow> Unmodelled)"

subsection \<open>\<^verbatim>\<open>Number(v)\<close>\<close>

text \<open>
  The conversion of a string. The string is trimmed of white space; the empty string is 0;
  an optionally signed run of decimal digits, the form in which the API sends
  \<^verbatim>\<open>totalResults\<close>, is the double nearest to the integer it writes (\<open>integer_value\<close>); any
  other numeric literal (a fraction, an exponent, a radix prefix, \<^verbatim>\<open>Infinity\<close>) is a number
  that is not followed here; any other string is \<open>NaN\<close>. A string with a byte outside ASCII
  is not followed either, the white space of JavaScript reaching beyond ASCII.
\<close>

definition is_space :: "char \<Rightarrow> bool" where
  "is_space c = (c \<in> set [CHR 0x09, CHR 0x0A, CHR 0x0B, CHR 0x0C, CHR 0x0D, CHR 0x20])"

definition trim :: "string \<Rightarrow> string" where
  "trim s = rev (dropWhile is_space (rev (dropWhile is_space s)))"

definition is_digit :: "char \<Rightarrow> bool" where
  "is_digit c = (48 \<le> (of_char c :: nat) \<and> (of_char c :: nat) \<le> 57)"

definition is_digits :: "string \<Rightarrow> bool" where
  "is_digits ds = (ds \<noteq> [] \<and> list_all is_digit ds)"

definition decimal :: "string \<Rightarrow> nat" where
  "decimal ds = foldl (\<lambda>n c. 10 * n + ((of_char c :: nat) - 48)) 0 ds"

definition negate :: "jsnum \<Rightarrow> jsnum" where
  "negate x = (case x of NaN \<Rightarrow> NaN | Num n \<Rightarrow> Num (- n) | Unmodelled \<Rightarrow> Unmodelled)"

text \<open>
  The numeric literals of a string, after the grammar of \<^verbatim>\<open>StringNumericLiteral\<close>: digits
  with an optional point, or a point and digits, then an optional exponent; \<^verbatim>\<open>Infinity\<close>;
  a sign before either; or an unsigned binary, octal or hexadecimal integer.
\<close>

definition is_mantissa :: "string \<Rightarrow> bool" where
  "is_mantissa m =
     (let ip = takeWhile (\<lambda>c. c \<noteq> CHR ''.'') m;
          rest = dropWhile (\<lambda>c. c \<noteq> CHR ''.'') m
      in list_all is_digit ip \<and>
         (case rest of
            [] \<Rightarrow> ip \<noteq> []
          | dot # fp \<Rightarrow> list_all is_digit fp \<and> (ip \<noteq> [] \<or> fp \<noteq> [])))"

definition is_exponent :: "string \<Rightarrow> bool" where
  "is_exponent x =
     (case x of
        [] \<Rightarrow> False
      | c # cs \<Rightarrow> if c = CHR ''+'' \<or> c = CHR ''-'' then is_digits cs else is_digits (c # cs))"

definition is_unsigned_decimal :: "string \<Rightarrow> bool" where
  "is_unsigned_decimal u =
     (u = ''Infinity'' \<or>
      (let m = takeWhile (\<lambda>c. c \<noteq> CHR ''e'' \<and> c \<noteq> CHR ''E'') u;
           rest = dropWhile (\<lambda>c. c \<noteq> CHR ''e'' \<and> c \<noteq> CHR ''E'') u
       in is_mantissa m \<and> (case rest of [] \<Rightarrow> True | e # x \<Rightarrow> is_exponent x)))"

definition is_decimal_literal :: "string \<Rightarrow> bool" where
  "is_decimal_literal t =
     (case t of
        [] \<Rightarrow> False
      | c # cs \<Rightarrow>
          if c = CHR ''+'' \<or> c = CHR ''-'' then is_unsigned_decimal cs
          else is_unsigned_decimal (c # cs))"

definition is_radix_literal :: "string \<Rightarrow> bool" where
  "is_radix_literal t =
     (case t of
        c0 # c1 # ds \<Rightarrow>
          c0 = CHR ''0'' \<and> ds \<noteq> [] \<and>
          ((c1 \<in> set ''bB'' \<and> list_all (\<lambda>c. c \<in> set ''01'') ds) \<or>
           (c1 \<in> set ''oO'' \<and> list_all (\<lambda>c. c \<in> set ''01234567'') ds) \<or>
           (c1 \<in> set ''xX'' \<and> list_all (\<lambda>c. c \<in> set ''0123456789abcdefABCDEF'') ds))
      | short \<Rightarrow> False)"

definition StringToNumber :: "string \<Rightarrow> jsnum" where
  "StringToNumber s =
     (if list_ex (\<lambda>c. 128 \<le> (of_char c :: nat)) s then Unmodelled
      else
        (case trim s of
           [] \<Rightarrow> Num 0
         | c # cs \<Rightarrow>
             if c = CHR ''-'' \<and> is_digits cs then negate (integer_value (decimal cs))
             else if c = CHR ''+'' \<and> is_digits cs then integer_value (decimal cs)
             else if is_digits (c # cs) then integer_value (decimal (c # cs))
             else if is_decimal_literal (c # cs) \<or> is_radix_literal (c # cs) then Unmodelled
             else NaN))"

text \<open>
  \<^verbatim>\<open>Number(v)\<close> on a value of a reply. An array converts through its string form, which
  joins the elements with commas, \<open>null\<close> printing as the empty string: no element gives the
  empty string, one element gives its own string form (a number printing to a text that
  reads back as the number), and two or more give a text with a comma, which is no numeric
  literal. The string form of an object is \<^verbatim>\<open>[object Object]\<close>, that of a boolean
  \<^verbatim>\<open>true\<close> or \<^verbatim>\<open>false\<close>.
\<close>

fun Number :: "json \<Rightarrow> jsnum" where
  "Number JNull = Num 0"
| "Number (JBool b) = Num (if b then 1 else 0)"
| "Number (JNum n) = (if is_double n then Num n else Unmodelled)"
| "Number (JStr s) = StringToNumber s"
| "Number (JArr []) = Num 0"
| "Number (JArr [JNull]) = Num 0"
| "Number (JArr [JBool b]) = NaN"
| "Number (JArr [JNum n]) = Number (JNum n)"
| "Number (JArr [JStr s]) = StringToNumber s"
| "Number (JArr [JArr ys]) = Number (JArr ys)"
| "Number (JArr [JObj kvs]) = NaN"
| "Number (JArr (x # y # zs)) = NaN"
| "Number (JObj kvs) = NaN"

subsection \<open>Requests\<close>

text \<open>
  A request is the endpoint with its query parameters, as the template string lists them;
  percent-encoding is left to the transport. The reply to a request, that is
  \<^verbatim>\<open>await fetch(url)\<close> followed by \<^verbatim>\<open>await res.json()\<close>, either throws (no network, a body
  that is not JSON) or returns the decoded value.
\<close>

definition OMDB_BASE :: string where
  "OMDB_BASE = ''https://www.omdbapi.com/''"

record request =
  base :: string
  query :: "(string \<times> json) list"

definition search_url :: "string \<Rightarrow> string \<Rightarrow> int \<Rightarrow> request" where
  "search_url apiKey q p =
     \<lparr>base = OMDB_BASE,
      query = [(''apikey'', JStr apiKey), (''s'', JStr q), (''type'', JStr ''movie''), (''page'', JNum p)]\<rparr>"

definition details_url :: "string \<Rightarrow> string \<Rightarrow> request" where
  "details_url apiKey id' =
     \<lparr>base = OMDB_BASE,
      query = [(''apikey'', JStr apiKey), (''i'', JStr id'), (''plot'', JStr ''full'')]\<rparr>"

subsection \<open>Search controller\<close>

text \<open>The messages; a letter outside ASCII is written as its UTF-8 bytes.\<close>

definition no_results_message :: string where
  "no_results_message = ''Nenhum resultado encontrado.''"

definition search_failed_message :: string where
  "search_failed_message =
     ''Ocorreu um erro na busca. Verifique sua conex'' @ [CHR 0xC3, CHR 0xA3] @
     ''o e tente novamente.''"

text \<open>The state of \<^verbatim>\<open>SearchView\<close>, one field for each \<^verbatim>\<open>useState\<close>.\<close>

record search_view =
  s_term :: string
  s_page :: int
  s_loading :: bool
  s_error :: json
  s_results :: "json list"
  s_total :: jsnum

definition SearchView_init :: search_view where
  "SearchView_init =
     \<lparr>s_term = [], s_page = 1, s_loading = False, s_error = JStr [], s_results = [],
      s_total = Num 0\<rparr>"

text \<open>\<^verbatim>\<open>Array.isArray(data.Search) ? data.Search : []\<close>\<close>

definition search_items :: "json \<Rightarrow> json list" where
  "search_items data = (case get data ''Search'' of Some (JArr xs) \<Rightarrow> xs | _ \<Rightarrow> [])"

text \<open>
  The body of the \<^verbatim>\<open>try\<close> block, from the reply on. Whatever throws does so before the
  first setter runs: the request itself, or reading \<^verbatim>\<open>data.Response\<close> of \<open>null\<close>.
\<close>

definition search_try :: "json completion \<Rightarrow> search_view \<Rightarrow> search_view completion" where
  "search_try reply st =
     (case reply of
        Throws \<Rightarrow> Throws
      | Returns data \<Rightarrow>
          (case read_property data ''Response'' of
             Throws \<Rightarrow> Throws
           | Returns response \<Rightarrow>
               if response = Some (JStr ''False'') then
                 Returns (st\<lparr>s_results := [], s_total := Num 0,
                   s_error := or_else (get data ''Error'') (JStr no_results_message)\<rparr>)
               else
                 Returns (st\<lparr>s_results := search_items data,
                   s_total := Number (or_else (get data ''totalResults'') (JNum 0))\<rparr>)))"

text \<open>
  \<^verbatim>\<open>doSearch(q, p)\<close> runs in two parts. The first runs at the call, up to \<^verbatim>\<open>await fetch\<close>:
  the guard, \<^verbatim>\<open>setLoading(true)\<close>, \<^verbatim>\<open>setError("")\<close> and the request. The second runs when the
  reply is there, on the state as it is by then: the rest of the \<^verbatim>\<open>try\<close> block, the
  \<^verbatim>\<open>catch\<close> block and \<^verbatim>\<open>finally\<close>. Every setter is given a value, not an updater, so the
  second part overwrites the fields it sets and leaves the others as it finds them.
\<close>

definition doSearch_begin ::
  "string \<Rightarrow> string \<Rightarrow> int \<Rightarrow> search_view \<Rightarrow> request list \<times> search_view" where
  "doSearch_begin apiKey q p st =
     (if q = [] \<or> apiKey = [] then ([], st)
      else ([search_url apiKey q p], st\<lparr>s_loading := True, s_error := JStr []\<rparr>))"

definition doSearch_resume :: "json completion \<Rightarrow> search_view \<Rightarrow> search_view" where
  "doSearch_resume reply st =
     (let st2 = (case search_try reply st of
                   Throws \<Rightarrow> st\<lparr>s_error := JStr search_failed_message\<rparr>
                 | Returns st' \<Rightarrow> st')
      in st2\<lparr>s_loading := False\<rparr>)"

text \<open>
  A search that runs alone, from the call to the end of \<^verbatim>\<open>finally\<close> with no other search in
  between: the requests issued and the state left. \<open>reply\<close> is what the network answers to
  the one request. Searches that are in flight together are sequences of
  \<open>doSearch_begin\<close> and \<open>doSearch_resume\<close>.
\<close>

definition doSearch ::
  "string \<Rightarrow> string \<Rightarrow> int \<Rightarrow> json completion \<Rightarrow> search_view \<Rightarrow> request list \<times> search_view" where
  "doSearch apiKey q p reply st =
     (if q = [] \<or> apiKey = [] then ([], st)
      else (fst (doSearch_begin apiKey q p st),
            doSearch_resume reply (snd (doSearch_begin apiKey q p st))))"

subsection \<open>Detail controller\<close>

definition details_unavailable_message :: string where
  "details_unavailable_message =
     ''N'' @ [CHR 0xC3, CHR 0xA3] @ ''o foi poss'' @ [CHR 0xC3, CHR 0xAD] @
     ''vel obter os detalhes.''"

definition details_failed_message :: string where
  "details_failed_message = ''Ocorreu um erro ao carregar os detalhes.''"

text \<open>The state of \<^verbatim>\<open>DetailsView\<close>; \<open>d_data\<close> is \<open>None\<close> for \<open>null\<close>.\<close>

record details_view =
  d_loading :: bool
  d_error :: json
  d_data :: "json option"

definition DetailsView_init :: details_view where
  "DetailsView_init = \<lparr>d_loading = True, d_error = JStr [], d_data = None\<rparr>"

definition load_try :: "json completion \<Rightarrow> details_view \<Rightarrow> details_view completion" where
  "load_try reply st =
     (case reply of
        Throws \<Rightarrow> Throws
      | Returns json \<Rightarrow>
          (case read_property json ''Response'' of
             Throws \<Rightarrow> Throws
           | Returns response \<Rightarrow>
               if response = Some (JStr ''False'') then
                 Returns (st\<lparr>d_error := or_else (get json ''Error'') (JStr details_unavailable_message),
                   d_data := None\<rparr>)
               else Returns (st\<lparr>d_data := Some json\<rparr>)))"

definition load :: "string \<Rightarrow> string \<Rightarrow> json completion \<Rightarrow> details_view \<Rightarrow> request list \<times> details_view" where
  "load apiKey id' reply st =
     (let st1 = st\<lparr>d_loading := True, d_error := JStr []\<rparr>;
          url = details_url apiKey id';
          st2 = (case load_try reply st1 of
                   Throws \<Rightarrow> st1\<lparr>d_error := JStr details_failed_message\<rparr>
                 | Returns st' \<Rightarrow> st')
      in ([url], st2\<lparr>d_loading := False\<rparr>))"

text \<open>The effect on \<^verbatim>\<open>[apiKey, id]\<close>: \<^verbatim>\<open>if (apiKey && id) load()\<close>.\<close>

definition details_effect ::
  "string \<Rightarrow> string \<Rightarrow> json completion \<Rightarrow> details_view \<Rightarrow> request list \<times> details_view" where
  "details_effect apiKey id' reply st =
     (if apiKey \<noteq> [] \<and> id' \<noteq> [] then load apiKey id' reply st else ([], st))"

subsection \<open>Favourites\<close>

text \<open>
  The minimal fields of a title. The identifier is a string; another field may be absent
  (\<open>None\<close>) or hold any value of the reply. An item handed to \<^verbatim>\<open>toggleFavorite\<close> may carry
  more fields than these, hence the extensible record.
\<close>

record movie =
  imdbID :: string
  Title :: "json option"
  Year :: "json option"
  Poster :: "json option"
  Type :: "json option"

text \<open>
  The favourites object, as the mapping from its own keys to its records: the order of the
  keys is not part of it.
\<close>

type_synonym favorites = "string \<rightharpoonup> movie"

text \<open>
  \<^verbatim>\<open>next[k]\<close> as a condition. A record is an object, so an own property is truthy; a key
  that is not an own property is looked up in \<^verbatim>\<open>Object.prototype\<close>, whose properties are
  all truthy; any other key gives \<open>undefined\<close>.
\<close>

definition Object_prototype_keys :: "string list" where
  "Object_prototype_keys =
     [''constructor'', ''hasOwnProperty'', ''isPrototypeOf'', ''propertyIsEnumerable'',
      ''toLocaleString'', ''toString'', ''valueOf'', ''__proto__'', ''__defineGetter__'',
      ''__defineSetter__'', ''__lookupGetter__'', ''__lookupSetter__'']"

definition has_truthy :: "favorites \<Rightarrow> string \<Rightarrow> bool" where
  "has_truthy obj k = (obj k \<noteq> None \<or> k \<in> set Object_prototype_keys)"

text \<open>
  The updater that \<^verbatim>\<open>toggleFavorite(movie)\<close> hands to \<^verbatim>\<open>setFavorites\<close>. \<^verbatim>\<open>delete\<close> of a
  key that is not an own property changes nothing.
\<close>

definition toggleFavorite :: "'a movie_scheme \<Rightarrow> favorites \<Rightarrow> favorites" where
  "toggleFavorite movie prev =
     (let next' = prev in
      if has_truthy next' (imdbID movie) then next'(imdbID movie := None)
      else next'(imdbID movie \<mapsto>
             \<lparr>imdbID = imdbID movie, Title = Title movie, Year = Year movie,
              Poster = Poster movie, Type = Type movie\<rparr>))"

definition isFav :: "favorites \<Rightarrow> string \<Rightarrow> bool" where
  "isFav favs id' = has_truthy favs id'"

text \<open>A sequence of toggles, first to last.\<close>

fun toggles :: "'a movie_scheme list \<Rightarrow> favorites \<Rightarrow> favorites" where
  "toggles [] favs = favs"
| "toggles (m # ms) favs = toggles ms (toggleFavorite m favs)"

text \<open>The invariant of the mapping: every key is the \<^verbatim>\<open>imdbID\<close> of the record under it.\<close>

definition key_is_id :: "favorites \<Rightarrow> bool" where
  "key_is_id favs = (\<forall>k r. favs k = Some r \<longrightarrow> imdbID r = k)"

subsection \<open>Persistent store\<close>

text \<open>
  \<^verbatim>\<open>window.localStorage\<close>: unavailable (every access throws), full (a read works, a write
  throws for the quota), or available. A read of a key never written gives \<open>null\<close>
  (\<open>None\<close>).
\<close>

datatype storage =
    Unavailable
  | Full "string \<rightharpoonup> string"
  | Available "string \<rightharpoonup> string"

definition getItem :: "storage \<Rightarrow> string \<Rightarrow> string option completion" where
  "getItem ls key =
     (case ls of
        Unavailable \<Rightarrow> Throws
      | Full entries \<Rightarrow> Returns (entries key)
      | Available entries \<Rightarrow> Returns (entries key))"

definition setItem :: "storage \<Rightarrow> string \<Rightarrow> string \<Rightarrow> storage completion" where
  "setItem ls key str =
     (case ls of
        Unavailable \<Rightarrow> Throws
      | Full entries \<Rightarrow> Throws
      | Available entries \<Rightarrow> Returns (Available (entries(key \<mapsto> str))))"

text \<open>
  \<^verbatim>\<open>useLocalStorage(key, initialValue)\<close> is the initial read (the initialiser of
  \<^verbatim>\<open>useState\<close>) and the write that the effect makes after every change of the value. The
  codec is the platform's: \<open>JSON_parse\<close> returns the value of a text or throws, and
  \<open>JSON_stringify\<close> returns the text that reaches \<^verbatim>\<open>setItem\<close> or throws.
\<close>

definition useLocalStorage_init ::
  "(string \<Rightarrow> 'v completion) \<Rightarrow> storage \<Rightarrow> string \<Rightarrow> 'v \<Rightarrow> 'v" where
  "useLocalStorage_init JSON_parse ls key initialValue =
     (case getItem ls key of
        Throws \<Rightarrow> initialValue
      | Returns item \<Rightarrow>
          (case item of
             None \<Rightarrow> initialValue
           | Some str \<Rightarrow>
               if str = [] then initialValue
               else (case JSON_parse str of
                       Throws \<Rightarrow> initialValue
                     | Returns v \<Rightarrow> v)))"

definition useLocalStorage_effect ::
  "('v \<Rightarrow> string completion) \<Rightarrow> storage \<Rightarrow> string \<Rightarrow> 'v \<Rightarrow> storage" where
  "useLocalStorage_effect JSON_stringify ls key v =
     (case JSON_stringify v of
        Throws \<Rightarrow> ls
      | Returns str \<Rightarrow>
          (case setItem ls key str of
             Throws \<Rightarrow> ls
           | Returns ls' \<Rightarrow> ls'))"

text \<open>The two entries of \<^verbatim>\<open>App\<close>: \<^verbatim>\<open>useLocalStorage("omdbFavorites", {})\<close> and the credential.\<close>

definition load_favorites :: "(string \<Rightarrow> favorites completion) \<Rightarrow> storage \<Rightarrow> favorites" where
  "load_favorites JSON_parse ls = useLocalStorage_init JSON_parse ls ''omdbFavorites'' Map.empty"

definition save_favorites ::
  "(favorites \<Rightarrow> string completion) \<Rightarrow> storage \<Rightarrow> favorites \<Rightarrow> storage" where
  "save_favorites JSON_stringify ls favs =
     useLocalStorage_effect JSON_stringify ls ''omdbFavorites'' favs"

text \<open>
  For the examples, the codec cut down to one value: the encoder writes the given text, the
  decoder reads that text back and throws on any other, as \<^verbatim>\<open>JSON.parse\<close> does on a text
  that is not JSON. \<open>quoted s\<close> is the JSON text of a string with nothing to escape.
\<close>

definition encode_as :: "string \<Rightarrow> 'v \<Rightarrow> string completion" where
  "encode_as known v = Returns known"

definition decode_only :: "string \<Rightarrow> 'v \<Rightarrow> string \<Rightarrow> 'v completion" where
  "decode_only known v str = (if str = known then Returns v else Throws)"

definition quoted :: "string \<Rightarrow> string" where
  "quoted s = CHR 0x22 # s @ [CHR 0x22]"

subsection \<open>Sample replies\<close>

definition matrix_item :: json where
  "matrix_item =
     JObj [(''Title'', JStr ''The Matrix''), (''Year'', JStr ''1999''),
           (''imdbID'', JStr ''tt0133093''), (''Type'', JStr ''movie''),
           (''Poster'', JStr ''N/A'')]"

definition matrix_reply :: json where
  "matrix_reply =
     JObj [(''Search'', JArr [matrix_item]), (''totalResults'', JStr ''15''),
           (''Response'', JStr ''True'')]"

definition not_found_reply :: json where
  "not_found_reply = JObj [(''Response'', JStr ''False''), (''Error'', JStr ''Movie not found!'')]"

definition bare_false_reply :: json where
  "bare_false_reply = JObj [(''Response'', JStr ''False'')]"

definition matrix_details :: json where
  "matrix_details =
     JObj [(''Title'', JStr ''The Matrix''), (''Year'', JStr ''1999''),
           (''Director'', JStr ''Lana Wachowski, Lilly Wachowski''),
           (''imdbID'', JStr ''tt0133093''), (''Type'', JStr ''movie''),
           (''Response'', JStr ''True'')]"

subsection \<open>Sample favourites\<close>

definition matrix :: movie where
  "matrix =
     \<lparr>imdbID = ''tt0133093'', Title = Some (JStr ''The Matrix''), Year = Some (JStr ''1999''),
      Poster = Some (JStr ''N/A''), Type = Some (JStr ''movie'')\<rparr>"


definition matrix_favorites :: favorites where
  "matrix_favorites = [''tt0133093'' \<mapsto> matrix]"

definition matrix_favorites_json :: string where
  "matrix_favorites_json =
     ''{'' @ quoted ''tt0133093'' @ '':{'' @
       quoted ''imdbID'' @ '':'' @ quoted ''tt0133093'' @ '','' @
       quoted ''Title'' @ '':'' @ quoted ''The Matrix'' @ '','' @
       quoted ''Year'' @ '':'' @ quoted ''1999'' @ '','' @
       quoted ''Poster'' @ '':'' @ quoted ''N/A'' @ '','' @
       quoted ''Type'' @ '':'' @ quoted ''movie'' @ ''}}''"

section \<open>Properties\<close>

subsection \<open>Double precision\<close>

lemma bits_le: "n < 2 ^ k \<Longrightarrow> bits n \<le> int k"
proof (induction k arbitrary: n)
  case 0
  then show ?case by simp
next
  case (Suc k)
  then have "n div 2 < 2 ^ k" by simp
  then have "bits (n div 2) \<le> int k" by (rule Suc.IH)
  then show ?case by (subst bits.simps) simp
qed

lemma bits_10: "bits 10 = 4" by simp
lemma bits_1: "bits 1 = 1" by simp

lemma binexp_le: "binexp a b \<le> bits a - bits b"
  by (simp add: binexp_def Let_def)

lemma rne_one: "rne x (Suc 0) = x"
  by (simp add: rne_def)

lemma rne_multiple: "0 < y \<Longrightarrow> rne (y * c) y = c"
  by (simp add: rne_def)

lemma rne_bounds:
  assumes "0 < y"
  shows "2 * (y * rne x y) \<le> 2 * x + y \<and> 2 * x \<le> 2 * (y * rne x y) + y"
proof -
  define f where "f = x div y"
  define r where "r = x mod y"
  have x: "x = y * f + r" and r: "r < y"
    using assms by (simp_all add: f_def r_def)
  have "rne x y = f \<or> rne x y = f + 1" by (simp add: rne_def f_def Let_def)
  moreover have "rne x y = f \<Longrightarrow> 2 * r \<le> y"
    by (auto simp: rne_def f_def r_def Let_def split: if_splits)
  moreover have "rne x y = f + 1 \<Longrightarrow> y \<le> 2 * r"
    by (auto simp: rne_def f_def r_def Let_def split: if_splits)
  ultimately show ?thesis using x r by (auto simp: algebra_simps)
qed

lemma nearest_double_small:
  assumes "0 < a" "binexp a b < 52"
  shows "nearest_double a b =
    of_nat (rne (a * 2 ^ nat (52 - binexp a b)) b) / of_nat (2 ^ nat (52 - binexp a b))"
  using assms by (simp add: nearest_double_def Let_def scaled_def)

lemma nearest_double_52:
  assumes "0 < a" "binexp a b = 52"
  shows "nearest_double a b = of_nat (rne a b)"
  using assms by (simp add: nearest_double_def Let_def scaled_def)

lemma nearest_double_exact:
  assumes "n < 2 ^ 53"
  shows "nearest_double n 1 = of_nat n"
proof (cases "n = 0")
  case True
  then show ?thesis by (simp add: nearest_double_def)
next
  case False
  then have pos: "0 < n" by simp
  have "bits n \<le> 53" using bits_le [OF assms] by simp
  then have e: "binexp n 1 \<le> 52" using binexp_le [of n 1] by simp
  show ?thesis
  proof (cases "binexp n 1 = 52")
    case True
    show ?thesis using nearest_double_52 [OF pos True] by (simp add: rne_one)
  next
    case f: False
    then have "binexp n 1 < 52" using e by simp
    from nearest_double_small [OF pos this] show ?thesis by (simp add: rne_one)
  qed
qed

lemma tenth_ceiling:
  assumes "0 < n" "n < 2 ^ 53"
  shows "\<lceil>nearest_double n 10\<rceil> = (int n + 9) div 10"
proof -
  define e where "e = binexp n 10"
  define k where "k = nat (52 - e)"
  define M where "M = (2::nat) ^ k"
  define m where "m = rne (n * M) 10"
  define q where "q = n div 10"
  define r where "r = n mod 10"
  have "bits n \<le> 53" using bits_le [OF assms(2)] by simp
  then have e: "e \<le> 49" using binexp_le [of n 10] by (simp add: e_def)
  then have k: "3 \<le> k" "52 - e = int k" by (simp_all add: k_def)
  have "(2::nat) ^ 3 \<le> 2 ^ k" using k(1) by (intro power_increasing) simp_all
  then have M: "8 \<le> M" by (simp add: M_def)
  have "binexp n 10 < 52" using e by (simp add: e_def)
  from nearest_double_small [OF assms(1) this]
  have val: "nearest_double n 10 = of_nat m / of_nat M"
    by (simp add: m_def M_def k_def e_def)
  have n: "n = 10 * q + r" and r: "r < 10" by (simp_all add: q_def r_def)
  have nM: "n * M = 10 * (q * M) + r * M" by (simp add: n algebra_simps)
  show ?thesis
  proof (cases "r = 0")
    case True
    then have "n * M = 10 * (q * M)" using nM by simp
    then have "m = rne (10 * (q * M)) 10" unfolding m_def by (rule arg_cong)
    then have "m = q * M" using rne_multiple [of 10 "q * M"] by simp
    then have "nearest_double n 10 = of_nat q" using val M by simp
    then show ?thesis using n True by simp
  next
    case False
    have b: "2 * (10 * m) \<le> 2 * (n * M) + 10" "2 * (n * M) \<le> 2 * (10 * m) + 10"
      using rne_bounds [of 10 "n * M"] by (simp_all add: m_def)
    have rM: "M \<le> r * M" "r * M \<le> 9 * M" using False r by simp_all
    have lo: "q * M < m" using b(2) nM rM(1) M by linarith
    have hi: "m \<le> q * M + M" using b(1) nM rM(2) M by linarith
    have Mpos: "(0::rat) < of_nat M" using M by simp
    have "of_nat (q * M) < (of_nat m :: rat)" using lo by (simp only: of_nat_less_iff)
    then have l: "(of_nat q :: rat) < of_nat m / of_nat M"
      using Mpos by (simp add: field_simps)
    have "(of_nat m :: rat) \<le> of_nat (q * M + M)" using hi by (simp only: of_nat_le_iff)
    then have h: "of_nat m / of_nat M \<le> (of_nat q + 1 :: rat)"
      using Mpos by (simp add: field_simps)
    have "\<lceil>of_nat m / of_nat M :: rat\<rceil> = int q + 1"
      using l h by (intro ceiling_unique) simp_all
    moreover have "(int n + 9) div 10 = int q + 1" using n r False by simp
    ultimately show ?thesis using val by simp
  qed
qed

lemma is_double_safe:
  assumes "0 \<le> n" "n < 2 ^ 53"
  shows "is_double n"
proof -
  have "nat n < 2 ^ 53" using assms by (simp add: nat_less_iff)
  then have "nearest_double (nat n) 1 = of_nat (nat n)" by (rule nearest_double_exact)
  moreover have "(2::int) ^ 53 \<le> 2 ^ 1023" by (intro power_increasing) simp_all
  ultimately show ?thesis using assms by (simp add: is_double_def double_quotient_def)
qed

lemma integer_value_safe:
  assumes "n < 2 ^ 53"
  shows "integer_value n = Num (int n)"
proof -
  have "(2::nat) ^ 53 \<le> 10 ^ 20" by simp
  then have "n < 10 ^ 20" using assms by simp
  then show ?thesis using nearest_double_exact [OF assms] by (simp add: integer_value_def)
qed

text \<open>The rounding at some known doubles: a tenth, a third, and ties above \<open>2^54\<close>.\<close>

lemmas nearest_double_eval = nearest_double_def binexp_def scaled_def rne_def Let_def

lemma nearest_double_samples:
  "nearest_double 1 10 * 2 ^ 56 = 7205759403792794"
  "nearest_double 1 3 * 2 ^ 54 = 6004799503160661"
  "nearest_double 9007199254740993 1 = 9007199254740992"
  "nearest_double 18014398509481986 1 = 18014398509481984"
  "nearest_double 18014398509481990 1 = 18014398509481992"
  by (simp_all add: nearest_double_eval)

subsection \<open>Page count\<close>

lemma totalPages_safe:
  assumes "0 \<le> n" "n < 2 ^ 53"
  shows "totalPages (Num n) = Num ((n + 9) div 10)"
proof (cases "n = 0")
  case True
  then show ?thesis
    using is_double_safe [OF assms]
    by (simp add: totalPages_def double_quotient_def nearest_double_def)
next
  case False
  then have pos: "0 < nat n" using assms(1) by simp
  have "nat n < 2 ^ 53" using assms by (simp add: nat_less_iff)
  from tenth_ceiling [OF pos this] show ?thesis
    using assms(1) is_double_safe [OF assms]
    by (simp add: totalPages_def double_quotient_def)
qed

text \<open>
  Claim C10, as stated, fails: the quotient is rounded to a double before the ceiling is
  taken. A total of 30000000000000012, which is what the count \<^verbatim>\<open>"30000000000000012"\<close>
  converts to, divided by ten gives the double 3000000000000001 (the nearest to
  3000000000000001.2), so that is the page count: one less than the ceiling, and ten times
  it falls short of the total.
\<close>

theorem totalPages_rounded_counterexample:
  "Number (JStr ''30000000000000012'') = Num 30000000000000012
   \<and> totalPages (Num 30000000000000012) = Num 3000000000000001
   \<and> \<not> (30000000000000012 \<le> 10 * (3000000000000001::int))"
proof -
  have v: "nearest_double 30000000000000012 1 = 30000000000000012"
    by (simp add: nearest_double_eval)
  have q: "\<lceil>nearest_double 30000000000000012 10\<rceil> = 3000000000000001"
    by (simp add: nearest_double_eval)
  have d: "decimal ''30000000000000012'' = 30000000000000012"
    by (simp add: decimal_def)
  have s: "Number (JStr ''30000000000000012'') = Num 30000000000000012"
    by (simp add: StringToNumber_def trim_def is_space_def is_digits_def is_digit_def d
        integer_value_def v del: One_nat_def)
  have t: "totalPages (Num 30000000000000012) = Num 3000000000000001"
    by (simp add: totalPages_def is_double_def double_quotient_def v q del: One_nat_def)
  from s t show ?thesis by simp
qed

text \<open>
  Claim C10, amended. For every total \<open>n\<close> with \<open>0 \<le> n < 2^53\<close> (every count that is a safe
  integer) the page count is the ceiling of \<open>n / 10\<close>: the one integer \<open>k\<close> with
  \<open>10 (k - 1) < n \<le> 10 k\<close>, which is \<open>(n + 9) div 10\<close>. It is 0 for a total of 0, 1 for a
  total from 1 to 10, and 2 for a total from 11 to 20.
\<close>

theorem totalPages_ceiling:
  assumes "0 \<le> n" and "n < 2 ^ 53"
  shows "(\<forall>k. (totalPages (Num n) = Num k) = (10 * (k - 1) < n \<and> n \<le> 10 * k))
    \<and> totalPages (Num n) = Num ((n + 9) div 10)
    \<and> (n = 0 \<longrightarrow> totalPages (Num n) = Num 0)
    \<and> (1 \<le> n \<and> n \<le> 10 \<longrightarrow> totalPages (Num n) = Num 1)
    \<and> (11 \<le> n \<and> n \<le> 20 \<longrightarrow> totalPages (Num n) = Num 2)"
proof -
  note p = totalPages_safe [OF assms]
  have a: "\<forall>k. (totalPages (Num n) = Num k) = (10 * (k - 1) < n \<and> n \<le> 10 * k)"
    unfolding p by (simp, presburger)
  have c: "n = 0 \<longrightarrow> totalPages (Num n) = Num 0"
    unfolding p by simp
  have d: "1 \<le> n \<and> n \<le> 10 \<longrightarrow> totalPages (Num n) = Num 1"
    unfolding p by (simp, presburger)
  have e: "11 \<le> n \<and> n \<le> 20 \<longrightarrow> totalPages (Num n) = Num 2"
    unfolding p by (simp, presburger)
  from a p c d e show ?thesis by blast
qed

theorem totalPages_ceiling_witness:
  "(0::int) \<le> 15 \<and> (15::int) < 2 ^ 53 \<and> totalPages (Num 15) = Num 2
    \<and> totalPages (Num 0) = Num 0 \<and> totalPages (Num 10) = Num 1"
  using totalPages_ceiling [of 15] totalPages_ceiling [of 0] totalPages_ceiling [of 10]
  by simp

subsection \<open>Route parser\<close>

lemma split_on_not_Nil [simp]: "split_on sep s \<noteq> []"
  by (induction s) (auto split: list.splits)

lemma hd_split_on: "hd (split_on sep s) = takeWhile (\<lambda>c. c \<noteq> sep) s"
  by (induction s) (auto split: list.splits)

lemma tl_split_on:
  "tl (split_on sep s) =
     (if sep \<in> set s then split_on sep (tl (dropWhile (\<lambda>c. c \<noteq> sep) s)) else [])"
  by (induction s) (auto split: list.splits)

lemma part_0: "part (split_on sep s) 0 = Some (takeWhile (\<lambda>c. c \<noteq> sep) s)"
  using hd_split_on [of sep s]
  by (cases "split_on sep s") (auto simp: part_def)

lemma part_1:
  "part (split_on sep s) 1 =
     (if sep \<in> set s
      then Some (takeWhile (\<lambda>c. c \<noteq> sep) (tl (dropWhile (\<lambda>c. c \<noteq> sep) s)))
      else None)"
proof (cases "split_on sep s")
  case Nil
  then show ?thesis by simp
next
  case (Cons p ps)
  have t: "ps = (if sep \<in> set s then split_on sep (tl (dropWhile (\<lambda>c. c \<noteq> sep) s)) else [])"
    using tl_split_on [of sep s] Cons by simp
  show ?thesis
  proof (cases "sep \<in> set s")
    case True
    define r where "r = tl (dropWhile (\<lambda>c. c \<noteq> sep) s)"
    have ps: "ps = split_on sep r" using t True by (simp add: r_def)
    obtain q qs where q: "split_on sep r = q # qs" by (cases "split_on sep r") auto
    have "q = takeWhile (\<lambda>c. c \<noteq> sep) r" using hd_split_on [of sep r] q by simp
    then show ?thesis using Cons True ps q by (simp add: part_def r_def)
  next
    case False
    then show ?thesis using t Cons by (simp add: part_def)
  qed
qed

lemma no_sep_rest: "sep \<notin> set s \<Longrightarrow> tl (dropWhile (\<lambda>c. c \<noteq> sep) s) = []"
  by (induction s) auto

lemma takeWhile_append_sep: "sep \<notin> set a \<Longrightarrow> takeWhile (\<lambda>c. c \<noteq> sep) (a @ sep # b) = a"
  by (induction a) auto

lemma dropWhile_append_sep:
  "sep \<notin> set a \<Longrightarrow> dropWhile (\<lambda>c. c \<noteq> sep) (a @ sep # b) = sep # b"
  by (induction a) auto

lemma takeWhile_no_sep: "sep \<notin> set a \<Longrightarrow> takeWhile (\<lambda>c. c \<noteq> sep) a = a"
  by (induction a) auto

text \<open>The parser looks at the first two segments of the fragment and at nothing else.\<close>

lemma parseHash_segments:
  "parseHash wh =
     (let h = strip_hash wh;
          s1 = takeWhile (\<lambda>c. c \<noteq> CHR ''/'') h;
          s2 = takeWhile (\<lambda>c. c \<noteq> CHR ''/'') (tl (dropWhile (\<lambda>c. c \<noteq> CHR ''/'') h))
      in if s1 = ''detalhes'' \<and> s2 \<noteq> [] then \<lparr>name = ''details'', params = [(''id'', s2)]\<rparr>
         else if s1 = ''favoritos'' then \<lparr>name = ''favorites'', params = []\<rparr>
         else \<lparr>name = ''search'', params = []\<rparr>)"
  unfolding parseHash_def Let_def part_0 part_1
  by (auto simp: no_sep_rest truthy_part_def)

lemma strip_location_hash:
  "strip_hash (location_hash f) =
     (case f of [] \<Rightarrow> [] | c # cs \<Rightarrow> if c = CHR ''/'' then cs else f)"
  by (cases f) (auto simp: location_hash_def)

lemma details_verbatim:
  assumes "i \<noteq> []" "CHR ''/'' \<notin> set i"
  shows "parseHash (location_hash (''/detalhes/'' @ i)) =
    \<lparr>name = ''details'', params = [(''id'', i)]\<rparr>"
proof -
  have h: "strip_hash (location_hash (''/detalhes/'' @ i)) = ''detalhes'' @ CHR ''/'' # i"
    by (simp add: location_hash_def)
  have n: "CHR ''/'' \<notin> set ''detalhes''" by simp
  show ?thesis
    unfolding parseHash_segments h Let_def
    unfolding takeWhile_append_sep [OF n] dropWhile_append_sep [OF n]
    using assms by (simp add: takeWhile_no_sep)
qed

lemma details_cut:
  assumes "i \<noteq> []" "CHR ''/'' \<notin> set i"
  shows "parseHash (location_hash (''/detalhes/'' @ i @ CHR ''/'' # rest)) =
    \<lparr>name = ''details'', params = [(''id'', i)]\<rparr>"
proof -
  have h: "strip_hash (location_hash (''/detalhes/'' @ i @ CHR ''/'' # rest)) =
      ''detalhes'' @ CHR ''/'' # (i @ CHR ''/'' # rest)"
    by (simp add: location_hash_def)
  have n: "CHR ''/'' \<notin> set ''detalhes''" by simp
  show ?thesis
    unfolding parseHash_segments h Let_def
    unfolding takeWhile_append_sep [OF n] dropWhile_append_sep [OF n]
    using assms by (simp add: takeWhile_append_sep)
qed

lemma favoritos_prefix:
  "parseHash (location_hash (''/favoritos/'' @ rest)) = \<lparr>name = ''favorites'', params = []\<rparr>"
proof -
  have h: "strip_hash (location_hash (''/favoritos/'' @ rest)) = ''favoritos'' @ CHR ''/'' # rest"
    by (simp add: location_hash_def)
  have n: "CHR ''/'' \<notin> set ''favoritos''" by simp
  show ?thesis
    unfolding parseHash_segments h Let_def
    unfolding takeWhile_append_sep [OF n] dropWhile_append_sep [OF n]
    by simp
qed

lemma parseHash_examples:
  "parseHash (location_hash []) = \<lparr>name = ''search'', params = []\<rparr>"
  "parseHash (location_hash ''/'') = \<lparr>name = ''search'', params = []\<rparr>"
  "parseHash (location_hash ''/favoritos'') = \<lparr>name = ''favorites'', params = []\<rparr>"
  "parseHash (location_hash ''/detalhes/tt0133093'') =
     \<lparr>name = ''details'', params = [(''id'', ''tt0133093'')]\<rparr>"
  "parseHash (location_hash ''/unknown'') = \<lparr>name = ''search'', params = []\<rparr>"
  by (simp_all add: parseHash_def location_hash_def part_def truthy_part_def)

text \<open>
  Claim C3, as stated, fails: the identifier stops at the next \<^verbatim>\<open>/\<close>, so it is not the whole
  remainder of \<^verbatim>\<open>/detalhes/tt0133093/x\<close>; and \<^verbatim>\<open>/favoritos/x\<close>, which is not
  \<^verbatim>\<open>/favoritos\<close>, is routed to Favorites, not to Search.
\<close>

theorem parseHash_remainder_counterexample:
  "parseHash (location_hash ''/detalhes/tt0133093/x'') =
     \<lparr>name = ''details'', params = [(''id'', ''tt0133093'')]\<rparr>
   \<and> parseHash (location_hash ''/detalhes/tt0133093/x'') \<noteq>
     \<lparr>name = ''details'', params = [(''id'', ''tt0133093/x'')]\<rparr>
   \<and> parseHash (location_hash ''/favoritos/x'') = \<lparr>name = ''favorites'', params = []\<rparr>
   \<and> parseHash (location_hash ''/favoritos/x'') \<noteq> \<lparr>name = ''search'', params = []\<rparr>"
  by (simp add: parseHash_def location_hash_def part_def truthy_part_def)

text \<open>
  Claim C3, amended. The parser never fails. It drops one leading \<^verbatim>\<open>/\<close> of the fragment
  and reads the first segment \<open>s1\<close> (up to the next \<^verbatim>\<open>/\<close>) and the second \<open>s2\<close>: Details
  with id \<open>s2\<close> when \<open>s1\<close> is \<^verbatim>\<open>detalhes\<close> and \<open>s2\<close> is not empty, Favorites when \<open>s1\<close> is
  \<^verbatim>\<open>favoritos\<close> whatever follows, Search in every other case. So the empty fragment,
  \<^verbatim>\<open>/\<close> and \<^verbatim>\<open>/unknown\<close> give Search, \<^verbatim>\<open>/favoritos\<close> gives Favorites, and
  \<^verbatim>\<open>/detalhes/<id>\<close> gives Details with \<^verbatim>\<open><id>\<close> verbatim for every non-empty \<^verbatim>\<open><id>\<close>
  without \<^verbatim>\<open>/\<close> (\<^verbatim>\<open>tt0133093\<close> for \<^verbatim>\<open>/detalhes/tt0133093\<close>); text after a further \<^verbatim>\<open>/\<close> is
  ignored.
\<close>

theorem parseHash_routes:
  "parseHash (location_hash []) = \<lparr>name = ''search'', params = []\<rparr>
   \<and> parseHash (location_hash ''/'') = \<lparr>name = ''search'', params = []\<rparr>
   \<and> parseHash (location_hash ''/favoritos'') = \<lparr>name = ''favorites'', params = []\<rparr>
   \<and> parseHash (location_hash ''/detalhes/tt0133093'') =
       \<lparr>name = ''details'', params = [(''id'', ''tt0133093'')]\<rparr>
   \<and> parseHash (location_hash ''/unknown'') = \<lparr>name = ''search'', params = []\<rparr>
   \<and> (i \<noteq> [] \<and> CHR ''/'' \<notin> set i \<longrightarrow>
        parseHash (location_hash (''/detalhes/'' @ i)) =
          \<lparr>name = ''details'', params = [(''id'', i)]\<rparr>
        \<and> parseHash (location_hash (''/detalhes/'' @ i @ CHR ''/'' # rest)) =
          \<lparr>name = ''details'', params = [(''id'', i)]\<rparr>)
   \<and> parseHash (location_hash (''/favoritos/'' @ rest)) = \<lparr>name = ''favorites'', params = []\<rparr>
   \<and> parseHash (location_hash f) =
       (let h = (case f of [] \<Rightarrow> [] | c # cs \<Rightarrow> if c = CHR ''/'' then cs else f);
            s1 = takeWhile (\<lambda>c. c \<noteq> CHR ''/'') h;
            s2 = takeWhile (\<lambda>c. c \<noteq> CHR ''/'') (tl (dropWhile (\<lambda>c. c \<noteq> CHR ''/'') h))
        in if s1 = ''detalhes'' \<and> s2 \<noteq> [] then \<lparr>name = ''details'', params = [(''id'', s2)]\<rparr>
           else if s1 = ''favoritos'' then \<lparr>name = ''favorites'', params = []\<rparr>
           else \<lparr>name = ''search'', params = []\<rparr>)"
proof -
  have general: "parseHash (location_hash f) =
       (let h = (case f of [] \<Rightarrow> [] | c # cs \<Rightarrow> if c = CHR ''/'' then cs else f);
            s1 = takeWhile (\<lambda>c. c \<noteq> CHR ''/'') h;
            s2 = takeWhile (\<lambda>c. c \<noteq> CHR ''/'') (tl (dropWhile (\<lambda>c. c \<noteq> CHR ''/'') h))
        in if s1 = ''detalhes'' \<and> s2 \<noteq> [] then \<lparr>name = ''details'', params = [(''id'', s2)]\<rparr>
           else if s1 = ''favoritos'' then \<lparr>name = ''favorites'', params = []\<rparr>
           else \<lparr>name = ''search'', params = []\<rparr>)"
    unfolding parseHash_segments [of "location_hash f"] strip_location_hash by (rule refl)
  have ids: "i \<noteq> [] \<and> CHR ''/'' \<notin> set i \<longrightarrow>
        parseHash (location_hash (''/detalhes/'' @ i)) =
          \<lparr>name = ''details'', params = [(''id'', i)]\<rparr>
        \<and> parseHash (location_hash (''/detalhes/'' @ i @ CHR ''/'' # rest)) =
          \<lparr>name = ''details'', params = [(''id'', i)]\<rparr>"
    using details_verbatim [of i] details_cut [of i rest] by blast
  from parseHash_examples favoritos_prefix [of rest] ids general show ?thesis
    by blast
qed

theorem parseHash_routes_witness:
  "''tt0133093'' \<noteq> [] \<and> CHR ''/'' \<notin> set ''tt0133093''
   \<and> parseHash (location_hash (''/detalhes/'' @ ''tt0133093'')) =
       \<lparr>name = ''details'', params = [(''id'', ''tt0133093'')]\<rparr>
   \<and> parseHash (location_hash (''/detalhes/'' @ ''tt0133093'' @ CHR ''/'' # ''x'')) =
       \<lparr>name = ''details'', params = [(''id'', ''tt0133093'')]\<rparr>"
  using parseHash_routes [of "''tt0133093''" "''x''" "[]"] by simp

subsection \<open>Search controller\<close>

lemma doSearch_returns:
  assumes "q \<noteq> []" "apiKey \<noteq> []" "data \<noteq> JNull"
  shows "doSearch apiKey q p (Returns data) st =
    ([search_url apiKey q p],
     if get data ''Response'' = Some (JStr ''False'')
     then st\<lparr>s_loading := False, s_results := [], s_total := Num 0,
            s_error := or_else (get data ''Error'') (JStr no_results_message)\<rparr>
     else st\<lparr>s_loading := False, s_error := JStr [], s_results := search_items data,
            s_total := Number (or_else (get data ''totalResults'') (JNum 0))\<rparr>)"
  using assms
  by (simp add: doSearch_def doSearch_begin_def doSearch_resume_def search_try_def
      read_property_def Let_def)

lemma doSearch_throws:
  assumes "q \<noteq> []" "apiKey \<noteq> []" "reply = Throws \<or> reply = Returns JNull"
  shows "doSearch apiKey q p reply st =
    ([search_url apiKey q p], st\<lparr>s_loading := False, s_error := JStr search_failed_message\<rparr>)"
  using assms
  by (auto simp add: doSearch_def doSearch_begin_def doSearch_resume_def search_try_def
      read_property_def Let_def)

lemma truthy_or_else: "truthy d \<Longrightarrow> truthy (or_else v d)"
  by (simp add: or_else_def split: option.splits)

lemma no_results_message_truthy: "truthy (JStr no_results_message)"
  by (simp add: no_results_message_def)

lemma matrix_reply_facts:
  "matrix_reply \<noteq> JNull"
  "get matrix_reply ''Response'' \<noteq> Some (JStr ''False'')"
  "search_items matrix_reply = [matrix_item]"
  "Number (or_else (get matrix_reply ''totalResults'') (JNum 0)) = Num 15"
  by (simp_all add: matrix_reply_def search_items_def get_def or_else_def StringToNumber_def
      trim_def is_space_def is_digits_def is_digit_def decimal_def integer_value_safe)

lemma not_found_reply_facts:
  "not_found_reply \<noteq> JNull"
  "get not_found_reply ''Response'' = Some (JStr ''False'')"
  "get not_found_reply ''Error'' = Some (JStr ''Movie not found!'')"
  by (simp_all add: not_found_reply_def get_def)

lemma bare_false_reply_facts:
  "get bare_false_reply ''Response'' = Some (JStr ''False'')"
  "get bare_false_reply ''Error'' = None"
  by (simp_all add: bare_false_reply_def get_def)

text \<open>The controller never touches the term or the page.\<close>

lemma doSearch_term_page:
  "s_term (snd (doSearch apiKey q p reply st)) = s_term st
   \<and> s_page (snd (doSearch apiKey q p reply st)) = s_page st"
  by (simp add: doSearch_def doSearch_begin_def doSearch_resume_def search_try_def
      read_property_def Let_def split: completion.splits)

text \<open>
  A search that runs alone and whose request returns a decoded reply other than \<open>null\<close>
  leaves results or an error, never both.
\<close>

lemma doSearch_returned_not_both:
  assumes "q \<noteq> []" "apiKey \<noteq> []" "data \<noteq> JNull"
  shows "s_results (snd (doSearch apiKey q p (Returns data) st)) = []
    \<or> s_error (snd (doSearch apiKey q p (Returns data) st)) = JStr []"
  unfolding doSearch_returns [OF assms] by simp

text \<open>
  Claim C6. A call of \<^verbatim>\<open>doSearch\<close> with an empty term or without a credential issues no
  request and returns the state it was given, whatever the network would have answered.
\<close>

theorem doSearch_guard:
  assumes "q = [] \<or> apiKey = []"
  shows "doSearch apiKey q p reply st = ([], st)"
  using assms by (simp add: doSearch_def)

theorem doSearch_guard_witness:
  "(([]::string) = [] \<or> ''k'' = [])
   \<and> doSearch ''k'' [] 1 (Returns matrix_reply) SearchView_init = ([], SearchView_init)
   \<and> (''matrix'' = [] \<or> ([]::string) = [])
   \<and> doSearch [] ''matrix'' 1 (Returns matrix_reply) SearchView_init = ([], SearchView_init)"
  using doSearch_guard [of "[]" "''k''" 1 "Returns matrix_reply" SearchView_init]
    doSearch_guard [of "''matrix''" "[]" 1 "Returns matrix_reply" SearchView_init]
  by simp

text \<open>
  Claim C7. A search (term and credential present) whose reply has \<^verbatim>\<open>Response: "False"\<close>
  ends with no results, a total of 0 and the error set: to the reply's \<^verbatim>\<open>Error\<close> when that is
  truthy, to the default message when the reply has none (or a falsy one). One request was
  issued and \<open>loading\<close> is off again.
\<close>

theorem doSearch_no_results:
  assumes "q \<noteq> []" and "apiKey \<noteq> []"
    and "get data ''Response'' = Some (JStr ''False'')"
  shows "s_results (snd (doSearch apiKey q p (Returns data) st)) = []
    \<and> s_total (snd (doSearch apiKey q p (Returns data) st)) = Num 0
    \<and> truthy (s_error (snd (doSearch apiKey q p (Returns data) st)))
    \<and> (\<forall>e. get data ''Error'' = Some e \<and> truthy e \<longrightarrow>
          s_error (snd (doSearch apiKey q p (Returns data) st)) = e)
    \<and> (get data ''Error'' = None \<or> (\<exists>e. get data ''Error'' = Some e \<and> \<not> truthy e) \<longrightarrow>
          s_error (snd (doSearch apiKey q p (Returns data) st)) = JStr no_results_message)
    \<and> s_loading (snd (doSearch apiKey q p (Returns data) st)) = False
    \<and> fst (doSearch apiKey q p (Returns data) st) = [search_url apiKey q p]"
proof -
  have nn: "data \<noteq> JNull" using assms(3) by (auto simp: get_def)
  show ?thesis
    unfolding doSearch_returns [OF assms(1,2) nn]
    using assms(3) truthy_or_else [OF no_results_message_truthy, of "get data ''Error''"]
    by (auto simp: or_else_def)
qed

theorem doSearch_no_results_witness:
  "''matrix'' \<noteq> [] \<and> ''k'' \<noteq> [] \<and> get not_found_reply ''Response'' = Some (JStr ''False'')
   \<and> get not_found_reply ''Error'' = Some (JStr ''Movie not found!'')
   \<and> truthy (JStr ''Movie not found!'')
   \<and> s_results (snd (doSearch ''k'' ''matrix'' 1 (Returns not_found_reply) SearchView_init)) = []
   \<and> s_total (snd (doSearch ''k'' ''matrix'' 1 (Returns not_found_reply) SearchView_init)) = Num 0
   \<and> s_error (snd (doSearch ''k'' ''matrix'' 1 (Returns not_found_reply) SearchView_init)) =
       JStr ''Movie not found!''
   \<and> get bare_false_reply ''Response'' = Some (JStr ''False'')
   \<and> get bare_false_reply ''Error'' = None
   \<and> s_error (snd (doSearch ''k'' ''matrix'' 1 (Returns bare_false_reply) SearchView_init)) =
       JStr no_results_message"
proof -
  have q: "''matrix'' \<noteq> []" and k: "''k'' \<noteq> []" by simp_all
  show ?thesis
    using doSearch_no_results [OF q k not_found_reply_facts(2), of 1 SearchView_init]
      doSearch_no_results [OF q k bare_false_reply_facts(1), of 1 SearchView_init]
      not_found_reply_facts bare_false_reply_facts
    by simp
qed

text \<open>
  Claim C1 says that a search leaves the state either free of error, with at most ten
  results and a total that is not negative, or in error with no results, and never with
  results and in error at once. The code breaks it where it breaks claim C4: a first search
  returns a page and the request of the second throws. The state left has the result of the
  first search and the error of the second, which is neither of the two states. (The reply
  of the first search keeps the API's contract: one item, a count of 15.)
\<close>

theorem doSearch_results_and_error:
  "s_results (snd (doSearch ''k'' ''matrix'' 2 Throws
      (snd (doSearch ''k'' ''matrix'' 1 (Returns matrix_reply) SearchView_init)))) \<noteq> []
   \<and> truthy (s_error (snd (doSearch ''k'' ''matrix'' 2 Throws
      (snd (doSearch ''k'' ''matrix'' 1 (Returns matrix_reply) SearchView_init)))))
   \<and> length (s_results (snd (doSearch ''k'' ''matrix'' 2 Throws
      (snd (doSearch ''k'' ''matrix'' 1 (Returns matrix_reply) SearchView_init))))) = 1"
  by (simp add: doSearch_returns [OF _ _ matrix_reply_facts(1)] doSearch_throws
      matrix_reply_facts search_failed_message_def)

text \<open>
  Two searches in flight together, which nothing in the view prevents, are outside
  \<open>doSearch\<close>. The success branch sets no error, so a good reply that arrives after another
  search has failed leaves its results next to that search's error.
\<close>

lemma overlapping_searches:
  "s_results (doSearch_resume (Returns matrix_reply) (doSearch_resume Throws
      (snd (doSearch_begin ''k'' ''matrix'' 1
        (snd (doSearch_begin ''k'' ''matrix'' 1 SearchView_init)))))) = [matrix_item]
   \<and> s_error (doSearch_resume (Returns matrix_reply) (doSearch_resume Throws
      (snd (doSearch_begin ''k'' ''matrix'' 1
        (snd (doSearch_begin ''k'' ''matrix'' 1 SearchView_init)))))) =
          JStr search_failed_message"
  using matrix_reply_facts
  by (simp add: doSearch_begin_def doSearch_resume_def search_try_def read_property_def)

text \<open>
  Claim C4 says that a search whose request throws ends with the result list cleared and
  the generic message set. The code sets the message (\<open>doSearch_throws\<close>) but clears
  nothing: here a first search returns a page and the request of the second throws, and the
  results and the total of the first search are still in the state, next to the error. The
  branch for \<^verbatim>\<open>Response: "False"\<close> does clear them; the \<^verbatim>\<open>catch\<close> block does not.
\<close>

theorem doSearch_failure_keeps_results:
  "s_results (snd (doSearch ''k'' ''matrix'' 2 Throws
      (snd (doSearch ''k'' ''matrix'' 1 (Returns matrix_reply) SearchView_init)))) = [matrix_item]
   \<and> s_total (snd (doSearch ''k'' ''matrix'' 2 Throws
      (snd (doSearch ''k'' ''matrix'' 1 (Returns matrix_reply) SearchView_init)))) = Num 15
   \<and> s_error (snd (doSearch ''k'' ''matrix'' 2 Throws
      (snd (doSearch ''k'' ''matrix'' 1 (Returns matrix_reply) SearchView_init)))) =
        JStr search_failed_message"
  by (simp add: doSearch_returns [OF _ _ matrix_reply_facts(1)] doSearch_throws
      matrix_reply_facts)

subsection \<open>Detail controller\<close>

lemma load_returns:
  assumes "json \<noteq> JNull"
  shows "load apiKey id' (Returns json) st =
    ([details_url apiKey id'],
     if get json ''Response'' = Some (JStr ''False'')
     then st\<lparr>d_loading := False,
            d_error := or_else (get json ''Error'') (JStr details_unavailable_message),
            d_data := None\<rparr>
     else st\<lparr>d_loading := False, d_error := JStr [], d_data := Some json\<rparr>)"
  using assms by (simp add: load_def load_try_def read_property_def Let_def)

lemma load_throws:
  assumes "reply = Throws \<or> reply = Returns JNull"
  shows "load apiKey id' reply st =
    ([details_url apiKey id'], st\<lparr>d_loading := False, d_error := JStr details_failed_message\<rparr>)"
  using assms by (auto simp add: load_def load_try_def read_property_def Let_def)

lemma matrix_details_facts:
  "matrix_details \<noteq> JNull"
  "get matrix_details ''Response'' \<noteq> Some (JStr ''False'')"
  by (simp_all add: matrix_details_def get_def)

text \<open>A reply \<^verbatim>\<open>Response: "False"\<close> sets the error and clears the data.\<close>

lemma load_not_found:
  assumes "get json ''Response'' = Some (JStr ''False'')"
  shows "d_data (snd (load apiKey id' (Returns json) st)) = None
    \<and> truthy (d_error (snd (load apiKey id' (Returns json) st)))"
proof -
  have nn: "json \<noteq> JNull" using assms by (auto simp: get_def)
  have "truthy (JStr details_unavailable_message)"
    by (simp add: details_unavailable_message_def)
  then show ?thesis
    unfolding load_returns [OF nn] using assms truthy_or_else by simp
qed

text \<open>
  Claim C5 says that a detail load that fails, by a reply \<^verbatim>\<open>Response: "False"\<close> or by a
  request that throws, ends with the error set and the data cleared. The first half holds
  (\<open>load_not_found\<close>). In the second the code sets the message (\<open>load_throws\<close>) but clears
  nothing: here the details of one title load, the view is given another identifier and
  that request throws, and the record of the first title is still the data, next to the
  error.
\<close>

theorem load_failure_keeps_data:
  "d_data (snd (details_effect ''k'' ''tt0234215'' Throws
      (snd (details_effect ''k'' ''tt0133093'' (Returns matrix_details) DetailsView_init)))) =
        Some matrix_details
   \<and> d_error (snd (details_effect ''k'' ''tt0234215'' Throws
      (snd (details_effect ''k'' ''tt0133093'' (Returns matrix_details) DetailsView_init)))) =
        JStr details_failed_message"
  by (simp add: details_effect_def load_returns [OF matrix_details_facts(1)] load_throws
      matrix_details_facts)

subsection \<open>Favourites\<close>

lemma matrix_id_plain: "''tt0133093'' \<notin> set Object_prototype_keys"
  by (simp add: Object_prototype_keys_def)

lemma toggleFavorite_matrix: "toggleFavorite matrix Map.empty = matrix_favorites"
  using matrix_id_plain
  by (simp add: toggleFavorite_def has_truthy_def matrix_favorites_def matrix_def Let_def)

lemma toggles_matrix: "toggles [matrix] Map.empty = matrix_favorites"
  by (simp add: toggleFavorite_matrix)




text \<open>A toggle flips the membership of the item's id and leaves every other key alone.\<close>

lemma toggleFavorite_flips:
  "imdbID item \<notin> set Object_prototype_keys \<Longrightarrow>
     isFav (toggleFavorite item favs) (imdbID item) = (\<not> isFav favs (imdbID item))"
  by (auto simp: isFav_def toggleFavorite_def has_truthy_def)

lemma toggleFavorite_other: "k \<noteq> imdbID item \<Longrightarrow> toggleFavorite item favs k = favs k"
  by (simp add: toggleFavorite_def)

lemma toggleFavorite_key_is_id: "key_is_id favs \<Longrightarrow> key_is_id (toggleFavorite item favs)"
  by (auto simp: key_is_id_def toggleFavorite_def Let_def split: if_splits)

lemma toggles_key_is_id: "key_is_id favs \<Longrightarrow> key_is_id (toggles items favs)"
  by (induction items arbitrary: favs) (auto simp: toggleFavorite_key_is_id)

lemma key_is_id_empty: "key_is_id Map.empty"
  by (simp add: key_is_id_def)

subsection \<open>Persistent store\<close>

lemma effect_cases:
  "useLocalStorage_effect S ls key v = ls \<or>
   (\<exists>entries str. ls = Available entries \<and> S v = Returns str
      \<and> useLocalStorage_effect S ls key v = Available (entries(key \<mapsto> str)))"
  by (auto simp: useLocalStorage_effect_def setItem_def split: completion.splits storage.splits)

lemma init_written:
  "useLocalStorage_init P (Available (entries(key \<mapsto> str))) key d =
     (if str = [] then d else case P str of Throws \<Rightarrow> d | Returns v \<Rightarrow> v)"
  by (simp add: useLocalStorage_init_def getItem_def)

lemma roundtrip:
  assumes "ls = Available entries" "S v = Returns str" "str \<noteq> []" "P str = Returns v"
  shows "useLocalStorage_init P (useLocalStorage_effect S ls key v) key d = v"
  using assms
  by (simp add: useLocalStorage_init_def useLocalStorage_effect_def setItem_def getItem_def)

lemma absorbed:
  assumes "ls = Unavailable \<or> ls = Full entries \<or> S v = Throws"
  shows "useLocalStorage_effect S ls key v = ls"
  using assms by (auto simp add: useLocalStorage_effect_def setItem_def split: completion.splits)

lemma matrix_favorites_json_not_empty: "matrix_favorites_json \<noteq> []"
  by (simp add: matrix_favorites_json_def)

text \<open>
  Claim C8. Start from a mapping in which every key is the \<^verbatim>\<open>imdbID\<close> of its record (the
  empty one, say) and toggle any items in any order: every key of the result is the
  \<^verbatim>\<open>imdbID\<close> of its record. Persist the result and load again: the loaded mapping has the
  property too, and it is the persisted mapping when the store took the write. This supposes
  that the codec decodes the text of the mapping to the mapping, and that what the store held
  under the key before, which is what comes back when the write is refused, had the property.
\<close>

theorem favorites_key_is_id:
  assumes "key_is_id favs"
    and "key_is_id (load_favorites JSON_parse ls)"
    and "\<forall>str. JSON_stringify (toggles items favs) = Returns str \<longrightarrow>
           JSON_parse str = Returns (toggles items favs)"
  shows "key_is_id (toggles items favs)
    \<and> key_is_id (load_favorites JSON_parse (save_favorites JSON_stringify ls (toggles items favs)))
    \<and> (\<forall>entries str. ls = Available entries \<and> JSON_stringify (toggles items favs) = Returns str
          \<and> str \<noteq> [] \<longrightarrow>
          load_favorites JSON_parse (save_favorites JSON_stringify ls (toggles items favs)) =
            toggles items favs)"
proof -
  let ?m = "toggles items favs"
  let ?k = "''omdbFavorites''"
  have inv: "key_is_id ?m" using assms(1) by (rule toggles_key_is_id)
  have reloaded: "key_is_id (load_favorites JSON_parse (save_favorites JSON_stringify ls ?m))"
  proof -
    consider (same) "useLocalStorage_effect JSON_stringify ls ?k ?m = ls"
      | (written) entries str where "ls = Available entries" "JSON_stringify ?m = Returns str"
          "useLocalStorage_effect JSON_stringify ls ?k ?m = Available (entries(?k \<mapsto> str))"
      using effect_cases [of JSON_stringify ls ?k ?m] by blast
    then show ?thesis
    proof cases
      case same
      then show ?thesis using assms(2) by (simp add: save_favorites_def)
    next
      case written
      have "JSON_parse str = Returns ?m" using assms(3) written(2) by blast
      then show ?thesis
        using written(3) inv key_is_id_empty
        by (simp add: load_favorites_def save_favorites_def init_written)
    qed
  qed
  have exact: "\<forall>entries str. ls = Available entries \<and> JSON_stringify ?m = Returns str
          \<and> str \<noteq> [] \<longrightarrow>
          load_favorites JSON_parse (save_favorites JSON_stringify ls ?m) = ?m"
    using assms(3) by (auto simp: load_favorites_def save_favorites_def roundtrip)
  from inv reloaded exact show ?thesis by blast
qed

theorem favorites_key_is_id_witness:
  "key_is_id Map.empty
   \<and> key_is_id (load_favorites (decode_only matrix_favorites_json matrix_favorites)
        (Available Map.empty))
   \<and> toggles [matrix] Map.empty = matrix_favorites
   \<and> key_is_id matrix_favorites
   \<and> load_favorites (decode_only matrix_favorites_json matrix_favorites)
        (save_favorites (encode_as matrix_favorites_json) (Available Map.empty)
           (toggles [matrix] Map.empty)) = matrix_favorites
   \<and> key_is_id (load_favorites (decode_only matrix_favorites_json matrix_favorites)
        (save_favorites (encode_as matrix_favorites_json) Unavailable
           (toggles [matrix] Map.empty)))"
proof -
  let ?P = "decode_only matrix_favorites_json matrix_favorites"
  let ?S = "encode_as matrix_favorites_json :: favorites \<Rightarrow> string completion"
  have h1: "key_is_id Map.empty" by (rule key_is_id_empty)
  have h2: "key_is_id (load_favorites ?P (Available Map.empty))"
    by (simp add: load_favorites_def useLocalStorage_init_def getItem_def key_is_id_empty)
  have h2': "key_is_id (load_favorites ?P Unavailable)"
    by (simp add: load_favorites_def useLocalStorage_init_def getItem_def key_is_id_empty)
  have h3: "\<forall>str. ?S (toggles [matrix] Map.empty) = Returns str \<longrightarrow>
      ?P str = Returns (toggles [matrix] Map.empty)"
    unfolding toggles_matrix by (simp add: encode_as_def decode_only_def)
  have e: "?S (toggles [matrix] Map.empty) = Returns matrix_favorites_json"
    by (simp add: encode_as_def)
  note w = favorites_key_is_id [where favs = Map.empty and JSON_parse = ?P
      and ls = "Available Map.empty" and JSON_stringify = ?S and items = "[matrix]",
      OF h1 h2 h3, unfolded toggles_matrix]
  note w' = favorites_key_is_id [where favs = Map.empty and JSON_parse = ?P
      and ls = Unavailable and JSON_stringify = ?S and items = "[matrix]",
      OF h1 h2' h3, unfolded toggles_matrix]
  have r: "load_favorites ?P (save_favorites ?S (Available Map.empty) matrix_favorites) =
      matrix_favorites"
    using w e [unfolded toggles_matrix] matrix_favorites_json_not_empty by blast
  show ?thesis
    unfolding toggles_matrix using w w' h1 h2 r by blast
qed

text \<open>
  Claim C9, as stated, fails: a write that the store refuses is absorbed, so the read that
  follows returns the default and not the value that was set. The store is unavailable in the
  first case and full in the second.
\<close>

theorem useLocalStorage_absorbed_counterexample:
  "useLocalStorage_init (decode_only (quoted ''k1'') ''k1'')
     (useLocalStorage_effect (encode_as (quoted ''k1'')) Unavailable ''omdbApiKey'' ''k1'')
     ''omdbApiKey'' [] = []
   \<and> useLocalStorage_init (decode_only (quoted ''k1'') ''k1'')
     (useLocalStorage_effect (encode_as (quoted ''k1'')) (Full Map.empty) ''omdbApiKey'' ''k1'')
     ''omdbApiKey'' [] = []
   \<and> ''k1'' \<noteq> []"
  by (simp add: useLocalStorage_init_def useLocalStorage_effect_def encode_as_def setItem_def
      getItem_def)

text \<open>
  Claim C9, amended. The read never raises, and it returns the default when the store is
  unavailable, when the key was never written, and when the text under the key is empty or
  does not decode. A write that the store accepts, of a value whose text is not empty and
  decodes to the value, is read back as that value. A write that throws (the store is
  unavailable or full, or the value has no text) leaves the store as it was, so the read
  that follows returns what it returned before.
\<close>

theorem useLocalStorage_contract:
  "(ls = Unavailable \<longrightarrow> useLocalStorage_init JSON_parse ls key d = d)
   \<and> ((ls = Full entries \<or> ls = Available entries) \<and> entries key = None \<longrightarrow>
        useLocalStorage_init JSON_parse ls key d = d)
   \<and> ((ls = Full entries \<or> ls = Available entries) \<and> entries key = Some str
        \<and> (str = [] \<or> JSON_parse str = Throws) \<longrightarrow>
        useLocalStorage_init JSON_parse ls key d = d)
   \<and> (ls = Available entries \<and> JSON_stringify v = Returns str \<and> str \<noteq> []
        \<and> JSON_parse str = Returns v \<longrightarrow>
        useLocalStorage_init JSON_parse (useLocalStorage_effect JSON_stringify ls key v) key d = v)
   \<and> (ls = Unavailable \<or> ls = Full entries \<or> JSON_stringify v = Throws \<longrightarrow>
        useLocalStorage_effect JSON_stringify ls key v = ls)"
proof -
  have a: "ls = Unavailable \<longrightarrow> useLocalStorage_init JSON_parse ls key d = d"
    by (simp add: useLocalStorage_init_def getItem_def)
  have b: "(ls = Full entries \<or> ls = Available entries) \<and> entries key = None \<longrightarrow>
        useLocalStorage_init JSON_parse ls key d = d"
    by (auto simp add: useLocalStorage_init_def getItem_def)
  have c: "(ls = Full entries \<or> ls = Available entries) \<and> entries key = Some str
        \<and> (str = [] \<or> JSON_parse str = Throws) \<longrightarrow>
        useLocalStorage_init JSON_parse ls key d = d"
    by (auto simp add: useLocalStorage_init_def getItem_def)
  have r: "ls = Available entries \<and> JSON_stringify v = Returns str \<and> str \<noteq> []
        \<and> JSON_parse str = Returns v \<longrightarrow>
        useLocalStorage_init JSON_parse (useLocalStorage_effect JSON_stringify ls key v) key d = v"
    using roundtrip [of ls entries JSON_stringify v str JSON_parse key d] by blast
  have f: "ls = Unavailable \<or> ls = Full entries \<or> JSON_stringify v = Throws \<longrightarrow>
        useLocalStorage_effect JSON_stringify ls key v = ls"
    using absorbed [of ls entries JSON_stringify v key] by blast
  from a b c r f show ?thesis by blast
qed

theorem useLocalStorage_contract_witness:
  "useLocalStorage_init (decode_only (quoted ''k1'') ''k1'') (Available Map.empty)
      ''omdbApiKey'' [] = []
   \<and> encode_as (quoted ''k1'') ''k1'' = Returns (quoted ''k1'') \<and> quoted ''k1'' \<noteq> []
   \<and> decode_only (quoted ''k1'') ''k1'' (quoted ''k1'') = Returns ''k1''
   \<and> useLocalStorage_init (decode_only (quoted ''k1'') ''k1'')
       (useLocalStorage_effect (encode_as (quoted ''k1'')) (Available Map.empty) ''omdbApiKey''
          ''k1'')
       ''omdbApiKey'' [] = ''k1''
   \<and> useLocalStorage_init (decode_only (quoted ''k1'') ''k1'')
       (Available [''omdbApiKey'' \<mapsto> ''{oops'']) ''omdbApiKey'' [] = []"
proof -
  have e: "encode_as (quoted ''k1'') ''k1'' = Returns (quoted ''k1'')"
    by (simp add: encode_as_def)
  have n: "quoted ''k1'' \<noteq> []" by (simp add: quoted_def)
  have p: "decode_only (quoted ''k1'') ''k1'' (quoted ''k1'') = Returns ''k1''"
    by (simp add: decode_only_def)
  have m: "decode_only (quoted ''k1'') ''k1'' ''{oops'' = Throws"
    by (simp add: decode_only_def quoted_def)
  show ?thesis
    using useLocalStorage_contract [of "Available Map.empty" "decode_only (quoted ''k1'') ''k1''"
        "''omdbApiKey''" "[]" Map.empty "quoted ''k1''" "encode_as (quoted ''k1'')" "''k1''"]
      useLocalStorage_contract [of "Available [''omdbApiKey'' \<mapsto> ''{oops'']"
        "decode_only (quoted ''k1'') ''k1''" "''omdbApiKey''" "[]"
        "[''omdbApiKey'' \<mapsto> ''{oops'']" "''{oops''" "encode_as (quoted ''k1'')" "''k1''"]
      e n p m
    by simp
qed

end
